theory Spec2Isabelle
  imports Main
begin

section \<open>JavaScript primitives used by main.js\<close>

text \<open>
  \<^verbatim>\<open>Array.prototype.indexOf\<close>: the index of the first element strictly equal to the
  argument, and \<open>-1\<close> when there is none. Window handles are compared by identity, so a
  handle is a natural number here.
\<close>

type_synonym window = nat

fun indexOf :: "'a list \<Rightarrow> 'a \<Rightarrow> int" where
  "indexOf [] x = - 1"
| "indexOf (y # ys) x =
     (if y = x then 0
      else (let i = indexOf ys x in if i < 0 then - 1 else i + 1))"

text \<open>
  \<^verbatim>\<open>Array.prototype.splice(start, deleteCount)\<close> with no inserted items, returning the
  array as it is after the call. A negative \<open>start\<close> counts from the end
  (\<open>max (len + start) 0\<close>), a \<open>start\<close> beyond the end is clamped to the length, and the
  number of deleted elements is clamped to what is left from there.
\<close>

definition splice :: "'a list \<Rightarrow> int \<Rightarrow> int \<Rightarrow> 'a list" where
  "splice xs start deleteCount =
     (let len = int (length xs);
          actualStart = (if start < 0 then max (len + start) 0 else min start len);
          actualDeleteCount = min (max deleteCount 0) (len - actualStart)
      in take (nat actualStart) xs @ drop (nat (actualStart + actualDeleteCount)) xs)"

text \<open>\<^verbatim>\<open>x || []\<close> for an argument that is either \<^verbatim>\<open>undefined\<close> or an array.\<close>

definition or_empty :: "'a list option \<Rightarrow> 'a list" where
  "or_empty v = (case v of None \<Rightarrow> [] | Some xs \<Rightarrow> xs)"

text \<open>Truthiness of a value that is \<^verbatim>\<open>undefined\<close> or a string: the empty string is falsy.\<close>

definition truthy :: "string option \<Rightarrow> bool" where
  "truthy v = (case v of None \<Rightarrow> False | Some s \<Rightarrow> s \<noteq> [])"

text \<open>The string that a truthy value of this kind is.\<close>

definition string_of :: "string option \<Rightarrow> string" where
  "string_of v = (case v of None \<Rightarrow> [] | Some s \<Rightarrow> s)"

text \<open>\<^verbatim>\<open>String.prototype.includes\<close>, which is what an unanchored literal regex tests.\<close>

fun starts_with :: "string \<Rightarrow> string \<Rightarrow> bool" where
  "starts_with s [] = True"
| "starts_with [] (c # cs) = False"
| "starts_with (x # xs) (c # cs) = (x = c \<and> starts_with xs cs)"

fun str_includes :: "string \<Rightarrow> string \<Rightarrow> bool" where
  "str_includes [] sub = (sub = [])"
| "str_includes (x # xs) sub = (starts_with (x # xs) sub \<or> str_includes xs sub)"

section \<open>Module-level constants\<close>

text \<open>
  \<^verbatim>\<open>appPath\<close> and \<^verbatim>\<open>mainFile\<close> are computed once when the module is loaded (from the
  host and from a stack trace); \<^verbatim>\<open>fs.existsSync\<close> reads the file system. They are the
  environment of every call.
\<close>

record env =
  appPath :: string
  mainFile :: string
  existsSync :: "string \<Rightarrow> bool"

text \<open>
  \<^verbatim>\<open>const ignoredPaths = /node_modules|[/\\]\./\<close>: the regex is not anchored, so it
  matches a path that contains \<^verbatim>\<open>node_modules\<close> anywhere, or a slash or a backslash
  immediately followed by a dot.
\<close>

definition backslash :: char where
  "backslash = CHR 0x5C"

definition ignoredPaths_test :: "string \<Rightarrow> bool" where
  "ignoredPaths_test p =
     (str_includes p ''node_modules''
      \<or> str_includes p [CHR ''/'', CHR ''.'']
      \<or> str_includes p [backslash, CHR ''.''])"

text \<open>
  An entry of chokidar's \<^verbatim>\<open>ignored\<close> option: a regular expression (given by its test) or
  a path string. The value of the option is \<^verbatim>\<open>undefined\<close>, one entry or an array.
\<close>

datatype matcher = RegExp "string \<Rightarrow> bool" | PathString string

datatype ignored_value = Undefined | Single matcher | Array "matcher list"

definition ignoredPaths :: matcher where
  "ignoredPaths = RegExp ignoredPaths_test"

section \<open>Options and the merged watcher options\<close>

text \<open>
  The \<^verbatim>\<open>options\<close> argument. \<open>forceHardReset\<close> is the outcome of
  \<^verbatim>\<open>options.forceHardReset === true\<close>. \<open>ignored\<close> is \<open>None\<close> when the object has no
  own key \<^verbatim>\<open>ignored\<close> and \<open>Some v\<close> when it has one with value \<open>v\<close>. \<open>passthrough\<close>
  holds every other key, which only chokidar reads.
\<close>

record options =
  electron :: "string option"
  hardResetMethod :: "string option"
  electronArgv :: "string list option"
  appArgv :: "string list option"
  forceHardReset :: bool
  ignored :: "ignored_value option"
  passthrough :: "(string \<times> string) list"

text \<open>
  What chokidar reads of \<^verbatim>\<open>Object.assign({ ignored: dflt }, options)\<close>: the assignment
  copies every own key of \<open>options\<close> over the target, so an \<^verbatim>\<open>ignored\<close> key of
  \<open>options\<close> overwrites the default whole. The keys of electron-reload itself are
  copied too, and chokidar does not read them.
\<close>

record chokidar_options =
  co_ignored :: ignored_value
  co_passthrough :: "(string \<times> string) list"

definition assign_ignored :: "matcher list \<Rightarrow> options \<Rightarrow> chokidar_options" where
  "assign_ignored dflt opts =
     \<lparr> co_ignored = (case ignored opts of None \<Rightarrow> Array dflt | Some v \<Rightarrow> v),
       co_passthrough = passthrough opts \<rparr>"

section \<open>Collaborators: watchers, host and child processes\<close>

text \<open>
  The two closures handed to the watchers. A hard-reset handler is the closure returned
  by \<^verbatim>\<open>createHardresetHandler\<close>, so it carries the four arguments it was created with.
\<close>

datatype listener =
    SoftReset
  | HardReset "string option" "string option" "string list option" "string list option"

text \<open>Every call the module makes on a collaborator, in the order it is made.\<close>

datatype action =
    Chokidar_watch "string list" chokidar_options
  | App_on_browser_window_created
  | Watcher_on nat listener
  | Watcher_once nat listener
  | Watcher_add nat "string list"
  | Watcher_close nat
  | Fs_existsSync string
  | ReloadIgnoringCache window
  | Spawn "string option" "string list" bool string
  | Child_unref
  | App_exit
  | App_quit

text \<open>
  A watcher subscription: the paths it was given, its options, whether it has been
  closed, and its \<^verbatim>\<open>change\<close> listeners in registration order (\<open>True\<close> marks a listener
  registered with \<^verbatim>\<open>once\<close>).
\<close>

record watcher =
  paths :: "string list"
  woptions :: chokidar_options
  closed :: bool
  listeners :: "(listener \<times> bool) list"

text \<open>
  The state of one \<^verbatim>\<open>electronReload\<close> call: its \<^verbatim>\<open>browserWindows\<close> array, the watchers
  it created (index 0 is \<^verbatim>\<open>watcher\<close>, index 1 is \<^verbatim>\<open>hardWatcher\<close>), whether the
  \<^verbatim>\<open>browser-window-created\<close> listener is registered, one entry for every
  \<^verbatim>\<open>bw.on('closed', ...)\<close> registration, and the log of collaborator calls.
\<close>

record state =
  browserWindows :: "window list"
  watchers :: "watcher list"
  window_created_listening :: bool
  closed_registrations :: "window list"
  calls :: "action list"

definition initial :: state where
  "initial = \<lparr> browserWindows = [], watchers = [], window_created_listening = False,
               closed_registrations = [], calls = [] \<rparr>"

definition record_call :: "action \<Rightarrow> state \<Rightarrow> state" where
  "record_call a s = s\<lparr>calls := calls s @ [a]\<rparr>"

definition update_watcher :: "nat \<Rightarrow> (watcher \<Rightarrow> watcher) \<Rightarrow> state \<Rightarrow> state" where
  "update_watcher w f s =
     (if w < length (watchers s) then s\<lparr>watchers := (watchers s)[w := f (watchers s ! w)]\<rparr>
      else s)"

text \<open>\<^verbatim>\<open>chokidar.watch(paths, options)\<close> opens a subscription and returns it.\<close>

definition chokidar_watch :: "string list \<Rightarrow> chokidar_options \<Rightarrow> state \<Rightarrow> nat \<times> state" where
  "chokidar_watch ps co s =
     (length (watchers s),
      record_call (Chokidar_watch ps co)
        (s\<lparr>watchers := watchers s @
              [\<lparr> paths = ps, woptions = co, closed = False, listeners = [] \<rparr>]\<rparr>))"

definition watcher_on :: "nat \<Rightarrow> listener \<Rightarrow> state \<Rightarrow> state" where
  "watcher_on w l s =
     record_call (Watcher_on w l)
       (update_watcher w (\<lambda>x. x\<lparr>listeners := listeners x @ [(l, False)]\<rparr>) s)"

definition watcher_once :: "nat \<Rightarrow> listener \<Rightarrow> state \<Rightarrow> state" where
  "watcher_once w l s =
     record_call (Watcher_once w l)
       (update_watcher w (\<lambda>x. x\<lparr>listeners := listeners x @ [(l, True)]\<rparr>) s)"

definition watcher_add :: "nat \<Rightarrow> string list \<Rightarrow> state \<Rightarrow> state" where
  "watcher_add w ps s =
     record_call (Watcher_add w ps) (update_watcher w (\<lambda>x. x\<lparr>paths := paths x @ ps\<rparr>) s)"

text \<open>\<^verbatim>\<open>close()\<close> ends the subscription and drops all its listeners.\<close>

definition watcher_close :: "nat \<Rightarrow> state \<Rightarrow> state" where
  "watcher_close w s =
     record_call (Watcher_close w)
       (update_watcher w (\<lambda>x. x\<lparr>closed := True, listeners := []\<rparr>) s)"

section \<open>The handlers of main.js\<close>

text \<open>
  The listener registered on a window's \<^verbatim>\<open>closed\<close> event:
  \<^verbatim>\<open>const i = browserWindows.indexOf(bw); browserWindows.splice(i, 1);\<close>
\<close>

definition closed_listener :: "window \<Rightarrow> window list \<Rightarrow> window list" where
  "closed_listener bw bws = (let i = indexOf bws bw in splice bws i 1)"

text \<open>
  \<^verbatim>\<open>softResetHandler\<close>: \<^verbatim>\<open>browserWindows.forEach(bw => bw.webContents.reloadIgnoringCache())\<close>.
\<close>

definition softResetHandler :: "window list \<Rightarrow> action list" where
  "softResetHandler bws = map ReloadIgnoringCache bws"

text \<open>
  The closure returned by \<^verbatim>\<open>createHardresetHandler\<close>: it builds the argument list,
  spawns the executable detached with inherited stdio, releases the child, and ends the
  current process with \<^verbatim>\<open>app.exit()\<close> or \<^verbatim>\<open>app.quit()\<close>.
\<close>

definition createHardresetHandler ::
  "env \<Rightarrow> string option \<Rightarrow> string option \<Rightarrow> string list option \<Rightarrow> string list option
     \<Rightarrow> action list" where
  "createHardresetHandler e eXecutable resetMethod eArgv aArgv =
     (let args = or_empty eArgv @ [appPath e] @ or_empty aArgv
      in [Spawn eXecutable args True ''inherit'', Child_unref,
          (if resetMethod = Some ''exit'' then App_exit else App_quit)])"

fun call_listener :: "env \<Rightarrow> listener \<Rightarrow> state \<Rightarrow> state" where
  "call_listener e SoftReset s = s\<lparr>calls := calls s @ softResetHandler (browserWindows s)\<rparr>"
| "call_listener e (HardReset x m ea aa) s =
     s\<lparr>calls := calls s @ createHardresetHandler e x m ea aa\<rparr>"

section \<open>electronReload\<close>

datatype error = Error string

definition electronReload :: "env \<Rightarrow> string list \<Rightarrow> options \<Rightarrow> (error + unit) \<times> state" where
  "electronReload e glob opts =
     (let (watcher, s1) =
            chokidar_watch glob
              (assign_ignored [ignoredPaths, PathString (mainFile e)] opts) initial;
          eXecutable = electron opts;
          hardResetHandler =
            HardReset eXecutable (hardResetMethod opts) (electronArgv opts) (appArgv opts);
          s2 = record_call App_on_browser_window_created (s1\<lparr>window_created_listening := True\<rparr>);
          s3 = watcher_on watcher SoftReset s2
      in if truthy eXecutable then
           (let s4 = record_call (Fs_existsSync (string_of eXecutable)) s3
            in if \<not> existsSync e (string_of eXecutable) then
                 (Inl (Error ''Provided electron executable cannot be found or is not executable!''),
                  s4)
               else
                 (let (hardWatcher, s5) =
                        chokidar_watch [mainFile e] (assign_ignored [ignoredPaths] opts) s4;
                      s6 = (if forceHardReset opts
                            then watcher_close watcher (watcher_add hardWatcher glob s5)
                            else s5)
                  in (Inr (), watcher_once hardWatcher hardResetHandler s6)))
         else (Inr (), s3))"

section \<open>Events delivered by the collaborators\<close>

text \<open>
  The host emits \<^verbatim>\<open>browser-window-created\<close> and, on a window, \<^verbatim>\<open>closed\<close>; a watcher
  emits \<^verbatim>\<open>change\<close> with a path. An emitter calls the listeners registered at that moment
  in registration order and drops a \<^verbatim>\<open>once\<close> listener as it calls it; a closed watcher
  emits nothing.
\<close>

datatype event = Browser_window_created window | Closed window | Change nat string

definition emit_change :: "env \<Rightarrow> nat \<Rightarrow> state \<Rightarrow> state" where
  "emit_change e w s =
     (if w < length (watchers s) \<and> \<not> closed (watchers s ! w) then
        (let ls = listeners (watchers s ! w);
             s' = update_watcher w (\<lambda>x. x\<lparr>listeners := filter (\<lambda>l. \<not> snd l) ls\<rparr>) s
         in fold (\<lambda>l. call_listener e (fst l)) ls s')
      else s)"

fun step :: "env \<Rightarrow> event \<Rightarrow> state \<Rightarrow> state" where
  "step e (Browser_window_created bw) s =
     (if window_created_listening s
      then s\<lparr>browserWindows := browserWindows s @ [bw],
             closed_registrations := closed_registrations s @ [bw]\<rparr>
      else s)"
| "step e (Closed bw) s =
     s\<lparr>browserWindows :=
         (closed_listener bw ^^ count_list (closed_registrations s) bw) (browserWindows s)\<rparr>"
| "step e (Change w p) s = emit_change e w s"

definition run :: "env \<Rightarrow> event list \<Rightarrow> state \<Rightarrow> state" where
  "run e evs s = fold (step e) evs s"

section \<open>Which paths a watcher tracks\<close>

text \<open>
  Chokidar turns the \<^verbatim>\<open>ignored\<close> option into a list of matchers and drops every path
  one of them matches: a regular expression by its test, a path string when the path is
  that string. (It also reads a string as a glob, which main.js does not rely on.)
\<close>

definition arrify :: "ignored_value \<Rightarrow> matcher list" where
  "arrify v = (case v of Undefined \<Rightarrow> [] | Single m \<Rightarrow> [m] | Array ms \<Rightarrow> ms)"

fun matches :: "matcher \<Rightarrow> string \<Rightarrow> bool" where
  "matches (RegExp t) p = t p"
| "matches (PathString s) p = (s = p)"

definition is_ignored :: "chokidar_options \<Rightarrow> string \<Rightarrow> bool" where
  "is_ignored co p = list_ex (\<lambda>m. matches m p) (arrify (co_ignored co))"

text \<open>
  A watcher tracks a path when it is open, one of its patterns matches the path
  (\<open>gm\<close> is the glob matching of the watching engine) and the path is not ignored.
\<close>

definition tracks :: "(string \<Rightarrow> string \<Rightarrow> bool) \<Rightarrow> watcher \<Rightarrow> string \<Rightarrow> bool" where
  "tracks gm w p =
     (\<not> closed w \<and> list_ex (\<lambda>pat. gm pat p) (paths w) \<and> \<not> is_ignored (woptions w) p)"

text \<open>
  The words of the specification about paths: the segments of a path are what its
  separators (slash and backslash) delimit, and a segment is dot-prefixed when it starts
  with a dot.
\<close>

definition is_sep :: "char \<Rightarrow> bool" where
  "is_sep c = (c = CHR ''/'' \<or> c = backslash)"

fun segments :: "string \<Rightarrow> string list" where
  "segments [] = [[]]"
| "segments (c # cs) =
     (if is_sep c then [] # segments cs
      else (case segments cs of [] \<Rightarrow> [[c]] | seg # rest \<Rightarrow> (c # seg) # rest))"

definition dot_prefixed :: "string \<Rightarrow> bool" where
  "dot_prefixed seg = starts_with seg ''.''"

section \<open>What a log of calls contains\<close>

fun is_reload :: "action \<Rightarrow> bool" where
  "is_reload (ReloadIgnoringCache w) = True"
| "is_reload a = False"

fun is_spawn :: "action \<Rightarrow> bool" where
  "is_spawn (Spawn x args d io) = True"
| "is_spawn a = False"

fun is_watch :: "action \<Rightarrow> bool" where
  "is_watch (Chokidar_watch ps co) = True"
| "is_watch a = False"

fun spawn_args :: "action \<Rightarrow> string list option" where
  "spawn_args (Spawn x args d io) = Some args"
| "spawn_args a = None"

definition spawned_args :: "action list \<Rightarrow> string list list" where
  "spawned_args acts = List.map_filter spawn_args acts"

definition terminations :: "action list \<Rightarrow> action list" where
  "terminations acts = filter (\<lambda>a. a = App_exit \<or> a = App_quit) acts"

section \<open>Shapes of a session\<close>

text \<open>
  A session with only the general watcher, open and carrying the soft-reset handler.
\<close>

definition soft_session :: "state \<Rightarrow> bool" where
  "soft_session s =
     (length (watchers s) = 1 \<and> \<not> closed (watchers s ! 0)
      \<and> listeners (watchers s ! 0) = [(SoftReset, False)])"

text \<open>
  A session with both watchers. The general watcher is either open with the soft-reset
  handler (\<open>soft\<close>) or closed; the hard watcher is open and has the listeners \<open>hl\<close>.
\<close>

definition hard_session :: "bool \<Rightarrow> (listener \<times> bool) list \<Rightarrow> state \<Rightarrow> bool" where
  "hard_session soft hl s =
     (length (watchers s) = 2
      \<and> (if soft
          then \<not> closed (watchers s ! 0) \<and> listeners (watchers s ! 0) = [(SoftReset, False)]
          else closed (watchers s ! 0))
      \<and> \<not> closed (watchers s ! 1) \<and> listeners (watchers s ! 1) = hl)"

text \<open>Whether an event is a change delivered by watcher \<open>w\<close>.\<close>

fun is_change_of :: "nat \<Rightarrow> event \<Rightarrow> bool" where
  "is_change_of w (Change v p) = (v = w)"
| "is_change_of w ev = False"

section \<open>Example inputs\<close>

definition example_env :: env where
  "example_env =
     \<lparr> appPath = ''/app'', mainFile = ''/app/main.js'',
       existsSync = (\<lambda>p. p = ''/usr/bin/electron'') \<rparr>"

text \<open>The options object \<^verbatim>\<open>{}\<close>.\<close>

definition no_options :: options where
  "no_options =
     \<lparr> electron = None, hardResetMethod = None, electronArgv = None, appArgv = None,
       forceHardReset = False, ignored = None, passthrough = [] \<rparr>"

section \<open>The window registry\<close>

lemma indexOf_absent: "x \<notin> set xs \<Longrightarrow> indexOf xs x = - 1"
  by (induction xs) (auto simp: Let_def)

lemma indexOf_present:
  "x \<in> set xs \<Longrightarrow> 0 \<le> indexOf xs x \<and> indexOf xs x < int (length xs)"
  by (induction xs) (auto simp: Let_def)

lemma splice_at_index:
  "0 \<le> i \<Longrightarrow> i < int (length xs) \<Longrightarrow>
     splice xs i 1 = take (nat i) xs @ drop (Suc (nat i)) xs"
  by (auto simp: splice_def Let_def min_def max_def nat_add_distrib)

lemma take_drop_indexOf:
  "x \<in> set xs \<Longrightarrow>
     take (nat (indexOf xs x)) xs @ drop (Suc (nat (indexOf xs x))) xs = remove1 x xs"
proof (induction xs)
  case Nil
  then show ?case by simp
next
  case (Cons y ys)
  show ?case
  proof (cases "y = x")
    case True
    then show ?thesis by simp
  next
    case False
    with Cons.prems have m: "x \<in> set ys" by simp
    from indexOf_present [OF m] have r: "0 \<le> indexOf ys x" by simp
    then have "nat (indexOf ys x + 1) = Suc (nat (indexOf ys x))" by simp
    with False r Cons.IH [OF m] show ?thesis by (simp add: Let_def)
  qed
qed

text \<open>With a handle that is in the array, its first occurrence is removed.\<close>

lemma closed_listener_present: "bw \<in> set bws \<Longrightarrow> closed_listener bw bws = remove1 bw bws"
  using indexOf_present [of bw bws]
  by (simp add: closed_listener_def Let_def splice_at_index take_drop_indexOf)

text \<open>
  With a handle that is not in the array, \<^verbatim>\<open>indexOf\<close> gives \<open>-1\<close> and
  \<^verbatim>\<open>splice(-1, 1)\<close> deletes the last element.
\<close>

lemma closed_listener_absent: "bw \<notin> set bws \<Longrightarrow> closed_listener bw bws = butlast bws"
  by (cases bws rule: rev_cases) (auto simp: closed_listener_def splice_def indexOf_absent Let_def)

section \<open>Segments and the ignore pattern\<close>

lemma segments_nonempty: "segments p \<noteq> []"
  by (induction p) (auto split: list.splits)

lemma starts_with_hd_segments: "starts_with p (hd (segments p))"
  by (induction p) (auto split: list.splits)

lemma str_includes_empty: "str_includes p []"
  by (cases p) auto

lemma segment_included: "seg \<in> set (segments p) \<Longrightarrow> str_includes p seg"
proof (induction p)
  case Nil
  then show ?case by simp
next
  case (Cons c cs)
  show ?case
  proof (cases "is_sep c")
    case True
    with Cons show ?thesis by (auto simp: str_includes_empty)
  next
    case False
    obtain s0 rest where sr: "segments cs = s0 # rest"
      using segments_nonempty by (cases "segments cs") auto
    have h: "starts_with cs s0" using starts_with_hd_segments [of cs] sr by simp
    from Cons.prems False sr have "seg = c # s0 \<or> seg \<in> set rest" by simp
    then show ?thesis
    proof
      assume "seg = c # s0"
      with h show ?thesis by simp
    next
      assume "seg \<in> set rest"
      with sr have "seg \<in> set (segments cs)" by simp
      with Cons.IH show ?thesis by simp
    qed
  qed
qed

lemma hd_segments_dot: "dot_prefixed (hd (segments p)) \<Longrightarrow> starts_with p ''.''"
  by (cases p) (auto simp: dot_prefixed_def split: list.splits if_splits)

lemma inner_dot_segment_included:
  "list_ex dot_prefixed (tl (segments p)) \<Longrightarrow>
     str_includes p [CHR ''/'', CHR ''.''] \<or> str_includes p [backslash, CHR ''.'']"
proof (induction p)
  case Nil
  then show ?case by simp
next
  case (Cons c cs)
  show ?case
  proof (cases "is_sep c")
    case True
    with Cons.prems have "list_ex dot_prefixed (segments cs)" by simp
    then have "dot_prefixed (hd (segments cs)) \<or> list_ex dot_prefixed (tl (segments cs))"
      using segments_nonempty [of cs] by (cases "segments cs") auto
    then show ?thesis
    proof
      assume "dot_prefixed (hd (segments cs))"
      then have "starts_with cs ''.''" by (rule hd_segments_dot)
      with True show ?thesis by (auto simp: is_sep_def)
    next
      assume "list_ex dot_prefixed (tl (segments cs))"
      with Cons.IH show ?thesis by auto
    qed
  next
    case False
    with Cons.prems have "list_ex dot_prefixed (tl (segments cs))"
      using segments_nonempty [of cs] by (cases "segments cs") auto
    with Cons.IH show ?thesis by auto
  qed
qed

section \<open>The four outcomes of electronReload\<close>

lemmas api_defs =
  electronReload_def chokidar_watch_def watcher_on_def watcher_once_def watcher_add_def
  watcher_close_def record_call_def update_watcher_def initial_def Let_def

lemma electronReload_soft_only:
  "\<not> truthy (electron opts) \<Longrightarrow>
   electronReload e glob opts =
     (Inr (),
      \<lparr> browserWindows = [],
        watchers = [\<lparr> paths = glob,
                      woptions = assign_ignored [ignoredPaths, PathString (mainFile e)] opts,
                      closed = False, listeners = [(SoftReset, False)] \<rparr>],
        window_created_listening = True, closed_registrations = [],
        calls = [Chokidar_watch glob
                   (assign_ignored [ignoredPaths, PathString (mainFile e)] opts),
                 App_on_browser_window_created, Watcher_on 0 SoftReset] \<rparr>)"
  by (simp add: api_defs)

lemma electronReload_missing:
  "truthy (electron opts) \<Longrightarrow> \<not> existsSync e (string_of (electron opts)) \<Longrightarrow>
   electronReload e glob opts =
     (Inl (Error ''Provided electron executable cannot be found or is not executable!''),
      \<lparr> browserWindows = [],
        watchers = [\<lparr> paths = glob,
                      woptions = assign_ignored [ignoredPaths, PathString (mainFile e)] opts,
                      closed = False, listeners = [(SoftReset, False)] \<rparr>],
        window_created_listening = True, closed_registrations = [],
        calls = [Chokidar_watch glob
                   (assign_ignored [ignoredPaths, PathString (mainFile e)] opts),
                 App_on_browser_window_created, Watcher_on 0 SoftReset,
                 Fs_existsSync (string_of (electron opts))] \<rparr>)"
  by (simp add: api_defs)

lemma electronReload_hard:
  "truthy (electron opts) \<Longrightarrow> existsSync e (string_of (electron opts)) \<Longrightarrow>
   \<not> forceHardReset opts \<Longrightarrow>
   electronReload e glob opts =
     (Inr (),
      \<lparr> browserWindows = [],
        watchers = [\<lparr> paths = glob,
                      woptions = assign_ignored [ignoredPaths, PathString (mainFile e)] opts,
                      closed = False, listeners = [(SoftReset, False)] \<rparr>,
                    \<lparr> paths = [mainFile e],
                      woptions = assign_ignored [ignoredPaths] opts,
                      closed = False,
                      listeners = [(HardReset (electron opts) (hardResetMethod opts)
                                      (electronArgv opts) (appArgv opts), True)] \<rparr>],
        window_created_listening = True, closed_registrations = [],
        calls = [Chokidar_watch glob
                   (assign_ignored [ignoredPaths, PathString (mainFile e)] opts),
                 App_on_browser_window_created, Watcher_on 0 SoftReset,
                 Fs_existsSync (string_of (electron opts)),
                 Chokidar_watch [mainFile e] (assign_ignored [ignoredPaths] opts),
                 Watcher_once 1 (HardReset (electron opts) (hardResetMethod opts)
                                   (electronArgv opts) (appArgv opts))] \<rparr>)"
  by (simp add: api_defs)

lemma electronReload_forced:
  "truthy (electron opts) \<Longrightarrow> existsSync e (string_of (electron opts)) \<Longrightarrow>
   forceHardReset opts \<Longrightarrow>
   electronReload e glob opts =
     (Inr (),
      \<lparr> browserWindows = [],
        watchers = [\<lparr> paths = glob,
                      woptions = assign_ignored [ignoredPaths, PathString (mainFile e)] opts,
                      closed = True, listeners = [] \<rparr>,
                    \<lparr> paths = mainFile e # glob,
                      woptions = assign_ignored [ignoredPaths] opts,
                      closed = False,
                      listeners = [(HardReset (electron opts) (hardResetMethod opts)
                                      (electronArgv opts) (appArgv opts), True)] \<rparr>],
        window_created_listening = True, closed_registrations = [],
        calls = [Chokidar_watch glob
                   (assign_ignored [ignoredPaths, PathString (mainFile e)] opts),
                 App_on_browser_window_created, Watcher_on 0 SoftReset,
                 Fs_existsSync (string_of (electron opts)),
                 Chokidar_watch [mainFile e] (assign_ignored [ignoredPaths] opts),
                 Watcher_add 1 glob, Watcher_close 0,
                 Watcher_once 1 (HardReset (electron opts) (hardResetMethod opts)
                                   (electronArgv opts) (appArgv opts))] \<rparr>)"
  by (simp add: api_defs)

text \<open>The general watcher is created first in every outcome, with the merged options.\<close>

lemma general_watcher_options:
  "woptions (watchers (snd (electronReload e glob opts)) ! 0) =
     assign_ignored [ignoredPaths, PathString (mainFile e)] opts"
proof (cases "truthy (electron opts)")
  case False
  then show ?thesis by (simp add: electronReload_soft_only)
next
  case True
  show ?thesis
  proof (cases "existsSync e (string_of (electron opts))")
    case False
    with True show ?thesis by (simp add: electronReload_missing)
  next
    case ex: True
    show ?thesis
    proof (cases "forceHardReset opts")
      case True
      with \<open>truthy (electron opts)\<close> ex show ?thesis by (simp add: electronReload_forced)
    next
      case False
      with \<open>truthy (electron opts)\<close> ex show ?thesis by (simp add: electronReload_hard)
    qed
  qed
qed

section \<open>Events on a session\<close>

lemma fold_call_watchers [simp]:
  "watchers (fold (\<lambda>l. call_listener e (fst l)) ls s) = watchers s"
proof (induction ls arbitrary: s)
  case Nil
  show ?case by simp
next
  case (Cons l ls)
  show ?case by (cases "fst l") (simp_all add: Cons.IH)
qed

lemma fold_call_browserWindows [simp]:
  "browserWindows (fold (\<lambda>l. call_listener e (fst l)) ls s) = browserWindows s"
proof (induction ls arbitrary: s)
  case Nil
  show ?case by simp
next
  case (Cons l ls)
  show ?case by (cases "fst l") (simp_all add: Cons.IH)
qed

lemma step_length_watchers [simp]: "length (watchers (step e ev s)) = length (watchers s)"
  by (cases ev) (simp_all add: emit_change_def update_watcher_def Let_def)

lemma emit_change_out_of_range:
  "length (watchers s) \<le> w \<Longrightarrow> emit_change e w s = s"
  by (simp add: emit_change_def)

lemma emit_change_closed:
  "w < length (watchers s) \<Longrightarrow> closed (watchers s ! w) \<Longrightarrow> emit_change e w s = s"
  by (simp add: emit_change_def)

lemma watcher_same_listeners: "listeners x = ls \<Longrightarrow> x\<lparr>listeners := ls\<rparr> = x"
  by (cases x) simp

lemma emit_change_soft:
  assumes "w < length (watchers s)" "\<not> closed (watchers s ! w)"
    and "listeners (watchers s ! w) = [(SoftReset, False)]"
  shows "emit_change e w s = s\<lparr>calls := calls s @ softResetHandler (browserWindows s)\<rparr>"
  using assms by (simp add: emit_change_def update_watcher_def watcher_same_listeners)

lemma emit_change_silent:
  assumes "w < length (watchers s)" "listeners (watchers s ! w) = []"
  shows "emit_change e w s = s"
  using assms by (simp add: emit_change_def update_watcher_def watcher_same_listeners)

lemma emit_change_once_hard:
  assumes "w < length (watchers s)" "\<not> closed (watchers s ! w)"
    and "listeners (watchers s ! w) = [(HardReset x m ea aa, True)]"
  shows "emit_change e w s =
           s\<lparr>watchers := (watchers s)[w := (watchers s ! w)\<lparr>listeners := []\<rparr>],
             calls := calls s @ createHardresetHandler e x m ea aa\<rparr>"
  using assms by (simp add: emit_change_def update_watcher_def)

lemma spawn_in_handler [simp]:
  "filter is_spawn (createHardresetHandler e x m ea aa) =
     [Spawn x (or_empty ea @ [appPath e] @ or_empty aa) True ''inherit'']"
  by (simp add: createHardresetHandler_def)

lemma no_reload_in_handler [simp]:
  "filter is_reload (createHardresetHandler e x m ea aa) = []"
  by (simp add: createHardresetHandler_def)

lemma no_spawn_in_soft [simp]: "filter is_spawn (softResetHandler bws) = []"
  by (induction bws) (simp_all add: softResetHandler_def)

lemma step_soft_session_change:
  assumes "soft_session s"
  shows "step e (Change 0 p) s = s\<lparr>calls := calls s @ softResetHandler (browserWindows s)\<rparr>"
  using assms by (simp add: soft_session_def emit_change_soft)

lemma step_soft_session:
  assumes "soft_session s"
  shows "soft_session (step e ev s)
         \<and> filter is_spawn (calls (step e ev s)) = filter is_spawn (calls s)"
proof (cases ev)
  case (Browser_window_created bw)
  with assms show ?thesis by (simp add: soft_session_def)
next
  case (Closed bw)
  with assms show ?thesis by (simp add: soft_session_def)
next
  case (Change w p)
  show ?thesis
  proof (cases "w = 0")
    case True
    from assms have "emit_change e 0 s = s\<lparr>calls := calls s @ softResetHandler (browserWindows s)\<rparr>"
      by (intro emit_change_soft) (simp_all add: soft_session_def)
    with Change True assms show ?thesis by (simp add: soft_session_def)
  next
    case False
    with assms have "length (watchers s) \<le> w" by (simp add: soft_session_def)
    then have "emit_change e w s = s" by (rule emit_change_out_of_range)
    with Change assms show ?thesis by simp
  qed
qed

lemma run_Cons [simp]: "run e (ev # evs) s = run e evs (step e ev s)"
  by (simp add: run_def)

lemma run_Nil [simp]: "run e [] s = s"
  by (simp add: run_def)

lemma run_soft_session:
  "soft_session s \<Longrightarrow>
     soft_session (run e evs s)
     \<and> filter is_spawn (calls (run e evs s)) = filter is_spawn (calls s)"
proof (induction evs arbitrary: s)
  case Nil
  then show ?case by simp
next
  case (Cons ev evs)
  from Cons.prems step_soft_session [of s e ev]
  have a: "soft_session (step e ev s)"
    and b: "filter is_spawn (calls (step e ev s)) = filter is_spawn (calls s)" by simp_all
  from Cons.IH [OF a] b show ?case by simp
qed

text \<open>An event that is no change of the hard watcher leaves that watcher as it is.\<close>

lemma step_hard_session_other:
  assumes "hard_session soft hl s" "\<not> is_change_of 1 ev"
  shows "hard_session soft hl (step e ev s)
         \<and> filter is_spawn (calls (step e ev s)) = filter is_spawn (calls s)
         \<and> (if soft then True else calls (step e ev s) = calls s)"
proof (cases ev)
  case (Browser_window_created bw)
  with assms show ?thesis by (simp add: hard_session_def)
next
  case (Closed bw)
  with assms show ?thesis by (simp add: hard_session_def)
next
  case (Change w p)
  with assms have w1: "w \<noteq> 1" by simp
  show ?thesis
  proof (cases "w = 0")
    case True
    show ?thesis
    proof (cases soft)
      case True
      with assms have "emit_change e 0 s = s\<lparr>calls := calls s @ softResetHandler (browserWindows s)\<rparr>"
        by (intro emit_change_soft) (simp_all add: hard_session_def)
      with Change \<open>w = 0\<close> assms True show ?thesis by (simp add: hard_session_def)
    next
      case False
      with assms have "emit_change e 0 s = s"
        by (intro emit_change_closed) (simp_all add: hard_session_def)
      with Change \<open>w = 0\<close> assms False show ?thesis by simp
    qed
  next
    case False
    with w1 assms have "length (watchers s) \<le> w" by (simp add: hard_session_def)
    then have "emit_change e w s = s" by (rule emit_change_out_of_range)
    with Change assms show ?thesis by simp
  qed
qed

lemma step_hard_session_fire:
  assumes "hard_session soft [(HardReset x m ea aa, True)] s"
  shows "hard_session soft [] (step e (Change 1 p) s)
         \<and> calls (step e (Change 1 p) s) = calls s @ createHardresetHandler e x m ea aa"
proof -
  from assms have "emit_change e 1 s =
      s\<lparr>watchers := (watchers s)[1 := (watchers s ! 1)\<lparr>listeners := []\<rparr>],
        calls := calls s @ createHardresetHandler e x m ea aa\<rparr>"
    by (intro emit_change_once_hard) (simp_all add: hard_session_def)
  with assms show ?thesis by (simp add: hard_session_def)
qed

lemma step_hard_session_inert:
  assumes "hard_session soft [] s"
  shows "step e (Change 1 p) s = s"
proof -
  from assms have "emit_change e 1 s = s"
    by (intro emit_change_silent) (simp_all add: hard_session_def)
  then show ?thesis by simp
qed

lemma run_hard_session_other:
  "hard_session soft hl s \<Longrightarrow> \<not> list_ex (is_change_of 1) evs \<Longrightarrow>
     hard_session soft hl (run e evs s)
     \<and> filter is_spawn (calls (run e evs s)) = filter is_spawn (calls s)
     \<and> (if soft then True else calls (run e evs s) = calls s)"
proof (induction evs arbitrary: s)
  case Nil
  then show ?case by simp
next
  case (Cons ev evs)
  from Cons.prems have n: "\<not> is_change_of 1 ev" and r: "\<not> list_ex (is_change_of 1) evs"
    by simp_all
  from step_hard_session_other [OF Cons.prems(1) n, of e]
  have a: "hard_session soft hl (step e ev s)"
    and b: "filter is_spawn (calls (step e ev s)) = filter is_spawn (calls s)"
    and c: "if soft then True else calls (step e ev s) = calls s" by simp_all
  from Cons.IH [OF a r] b c show ?case by (simp split: if_splits)
qed

lemma run_hard_session_inert:
  "hard_session soft [] s \<Longrightarrow>
     hard_session soft [] (run e evs s)
     \<and> filter is_spawn (calls (run e evs s)) = filter is_spawn (calls s)
     \<and> (if soft then True else calls (run e evs s) = calls s)"
proof (induction evs arbitrary: s)
  case Nil
  then show ?case by simp
next
  case (Cons ev evs)
  show ?case
  proof (cases "is_change_of 1 ev")
    case True
    then obtain p where "ev = Change 1 p" by (cases ev) auto
    with Cons.prems have "step e ev s = s" by (simp only: step_hard_session_inert)
    with Cons.IH [OF Cons.prems] show ?thesis by simp
  next
    case False
    from step_hard_session_other [OF Cons.prems False, of e]
    have a: "hard_session soft [] (step e ev s)"
      and b: "filter is_spawn (calls (step e ev s)) = filter is_spawn (calls s)"
      and c: "if soft then True else calls (step e ev s) = calls s" by simp_all
    from Cons.IH [OF a] b c show ?thesis by (simp split: if_splits)
  qed
qed

lemma run_hard_session_spawns:
  "hard_session soft [(HardReset x m ea aa, True)] s \<Longrightarrow>
     length (filter is_spawn (calls (run e evs s))) =
       length (filter is_spawn (calls s)) + (if list_ex (is_change_of 1) evs then 1 else 0)"
proof (induction evs arbitrary: s)
  case Nil
  then show ?case by simp
next
  case (Cons ev evs)
  show ?case
  proof (cases "is_change_of 1 ev")
    case True
    then obtain p where ev: "ev = Change 1 p" by (cases ev) auto
    from step_hard_session_fire [OF Cons.prems, of e p]
    have a: "hard_session soft [] (step e (Change 1 p) s)"
      and b: "calls (step e (Change 1 p) s) = calls s @ createHardresetHandler e x m ea aa"
      by simp_all
    from run_hard_session_inert [OF a, of e evs]
    have "filter is_spawn (calls (run e evs (step e (Change 1 p) s))) =
            filter is_spawn (calls (step e (Change 1 p) s))" by simp
    with b ev show ?thesis by simp
  next
    case False
    from step_hard_session_other [OF Cons.prems False, of e]
    have a: "hard_session soft [(HardReset x m ea aa, True)] (step e ev s)"
      and b: "filter is_spawn (calls (step e ev s)) = filter is_spawn (calls s)" by simp_all
    from Cons.IH [OF a] b False show ?thesis by simp
  qed
qed

text \<open>In a session whose general watcher is closed, no event logs a reload.\<close>

lemma run_forced_no_reload:
  "hard_session False hl s \<Longrightarrow> hl = [(HardReset x m ea aa, True)] \<or> hl = [] \<Longrightarrow>
     filter is_reload (calls (run e evs s)) = filter is_reload (calls s)"
proof (induction evs arbitrary: s hl)
  case Nil
  then show ?case by simp
next
  case (Cons ev evs)
  show ?case
  proof (cases "is_change_of 1 ev")
    case True
    then obtain p where ev: "ev = Change 1 p" by (cases ev) auto
    from Cons.prems(2) show ?thesis
    proof
      assume hl: "hl = [(HardReset x m ea aa, True)]"
      from step_hard_session_fire [of False x m ea aa s e p] Cons.prems(1) hl
      have a: "hard_session False [] (step e (Change 1 p) s)"
        and b: "calls (step e (Change 1 p) s) = calls s @ createHardresetHandler e x m ea aa"
        by simp_all
      from Cons.IH [OF a] b ev show ?thesis by simp
    next
      assume hl: "hl = []"
      with Cons.prems(1) ev have "step e ev s = s" by (simp only: step_hard_session_inert)
      with Cons.IH [OF Cons.prems] show ?thesis by simp
    qed
  next
    case False
    from step_hard_session_other [OF Cons.prems(1) False, of e]
    have a: "hard_session False hl (step e ev s)"
      and c: "calls (step e ev s) = calls s" by simp_all
    from Cons.IH [OF a Cons.prems(2)] c show ?thesis by simp
  qed
qed

lemma run_hard_session_fired:
  "hard_session soft [(HardReset x m ea aa, True)] s \<Longrightarrow> list_ex (is_change_of 1) evs \<Longrightarrow>
     hard_session soft [] (run e evs s)"
proof (induction evs arbitrary: s)
  case Nil
  then show ?case by simp
next
  case (Cons ev evs)
  show ?case
  proof (cases "is_change_of 1 ev")
    case True
    then obtain p where ev: "ev = Change 1 p" by (cases ev) auto
    from step_hard_session_fire [OF Cons.prems(1), of e p]
    have "hard_session soft [] (step e (Change 1 p) s)" by simp
    from run_hard_session_inert [OF this, of e evs] ev show ?thesis by simp
  next
    case False
    with Cons.prems(2) have r: "list_ex (is_change_of 1) evs" by simp
    from step_hard_session_other [OF Cons.prems(1) False, of e]
    have "hard_session soft [(HardReset x m ea aa, True)] (step e ev s)" by simp
    from Cons.IH [OF this r] show ?thesis by simp
  qed
qed

lemma hard_ignored_subset:
  "is_ignored (assign_ignored [ignoredPaths] opts) p \<Longrightarrow>
     is_ignored (assign_ignored [ignoredPaths, PathString f] opts) p"
  by (cases "ignored opts") (auto simp: is_ignored_def assign_ignored_def arrify_def)

lemma session_after_hard:
  assumes "truthy (electron opts)" "existsSync e (string_of (electron opts))"
    and "\<not> forceHardReset opts"
  shows "hard_session True
           [(HardReset (electron opts) (hardResetMethod opts) (electronArgv opts)
               (appArgv opts), True)]
           (snd (electronReload e glob opts))"
  using assms by (simp add: electronReload_hard hard_session_def)

lemma session_after_forced:
  assumes "truthy (electron opts)" "existsSync e (string_of (electron opts))"
    and "forceHardReset opts"
  shows "hard_session False
           [(HardReset (electron opts) (hardResetMethod opts) (electronArgv opts)
               (appArgv opts), True)]
           (snd (electronReload e glob opts))"
  using assms by (simp add: electronReload_forced hard_session_def)

lemma session_after_soft_only:
  assumes "\<not> truthy (electron opts)"
  shows "soft_session (snd (electronReload e glob opts))"
  using assms by (simp add: electronReload_soft_only soft_session_def)

lemma session_after_missing:
  assumes "truthy (electron opts)" "\<not> existsSync e (string_of (electron opts))"
  shows "soft_session (snd (electronReload e glob opts))"
  using assms by (simp add: electronReload_missing soft_session_def)

section \<open>Claims\<close>

text \<open>
  C1. The claim: calling the window-closed removal when the handle is not (or no longer)
  in the live set leaves the live set unchanged, so that a second call with the same
  handle removes no other entry. The code does not throw, but it does not leave the set
  unchanged either: the index \<open>-1\<close> of a missing handle goes to \<^verbatim>\<open>splice\<close> unchecked, which
  deletes the last entry. With the windows 1 and 2 open, the first \<^verbatim>\<open>closed\<close> of window 1
  removes it, and a second one removes window 2; a \<^verbatim>\<open>closed\<close> of a window 3 that was
  never added removes window 2 as well.
\<close>

theorem closed_listener_missing_handle_removes_last:
  "closed_listener 1 [1, 2] = [2]
   \<and> closed_listener 1 (closed_listener 1 [1, 2]) = []
   \<and> closed_listener 3 [1, 2] = [1]
   \<and> browserWindows
         (run example_env
            [Browser_window_created 1, Browser_window_created 2, Closed 1, Closed 1]
            (snd (electronReload example_env [''src''] no_options))) = []"
  by (simp add: closed_listener_def splice_def electronReload_soft_only no_options_def
      truthy_def)

text \<open>
  C2. The claim: with an executable path that names no existing file, initialization
  raises a configuration error before any watcher starts, and no watcher is left created
  or running. The code raises the error, but the general watcher is opened and its
  soft-reload handler registered first, and nothing closes it: with the executable
  \<open>/nonexistent\<close> the call fails and leaves one open watcher, which still reloads a
  window on a change.
\<close>

theorem missing_executable_leaves_general_watcher:
  "fst (electronReload example_env [''src''] (no_options\<lparr>electron := Some ''/nonexistent''\<rparr>)) =
     Inl (Error ''Provided electron executable cannot be found or is not executable!'')
   \<and> map closed
        (watchers
          (snd (electronReload example_env [''src'']
                  (no_options\<lparr>electron := Some ''/nonexistent''\<rparr>)))) = [False]
   \<and> map listeners
        (watchers
          (snd (electronReload example_env [''src'']
                  (no_options\<lparr>electron := Some ''/nonexistent''\<rparr>)))) = [[(SoftReset, False)]]
   \<and> filter is_reload
        (calls
          (run example_env [Browser_window_created 1, Change 0 ''src/a.js'']
            (snd (electronReload example_env [''src'']
                    (no_options\<lparr>electron := Some ''/nonexistent''\<rparr>))))) =
       [ReloadIgnoringCache 1]"
  by (simp add: electronReload_missing no_options_def example_env_def truthy_def string_of_def
      emit_change_def update_watcher_def softResetHandler_def)

text \<open>
  C2, as the code has it. For every configuration whose executable option is set (a
  non-empty string) and names no existing file, initialization raises the configuration
  error synchronously, straight after the existence check: no hard watcher has been
  created and no hard-reset handler armed. The general watcher, opened earlier in the
  same call with its soft-reload handler, is the only watcher and stays open.
\<close>

theorem missing_executable_raises_before_hard_watcher:
  assumes "truthy (electron opts)" and "\<not> existsSync e (string_of (electron opts))"
  shows "fst (electronReload e glob opts) =
           Inl (Error ''Provided electron executable cannot be found or is not executable!'')
         \<and> calls (snd (electronReload e glob opts)) =
             [Chokidar_watch glob (assign_ignored [ignoredPaths, PathString (mainFile e)] opts),
              App_on_browser_window_created, Watcher_on 0 SoftReset,
              Fs_existsSync (string_of (electron opts))]
         \<and> watchers (snd (electronReload e glob opts)) =
             [\<lparr> paths = glob,
                woptions = assign_ignored [ignoredPaths, PathString (mainFile e)] opts,
                closed = False, listeners = [(SoftReset, False)] \<rparr>]"
  using assms by (simp add: electronReload_missing)

theorem missing_executable_raises_before_hard_watcher_witness:
  "truthy (electron (no_options\<lparr>electron := Some ''/nonexistent''\<rparr>))
   \<and> \<not> existsSync example_env
         (string_of (electron (no_options\<lparr>electron := Some ''/nonexistent''\<rparr>)))
   \<and> fst (electronReload example_env [''src''] (no_options\<lparr>electron := Some ''/nonexistent''\<rparr>)) =
       Inl (Error ''Provided electron executable cannot be found or is not executable!'')
   \<and> filter is_watch
        (calls (snd (electronReload example_env [''src'']
                       (no_options\<lparr>electron := Some ''/nonexistent''\<rparr>)))) =
       [Chokidar_watch [''src'']
          \<lparr> co_ignored = Array [ignoredPaths, PathString ''/app/main.js''],
            co_passthrough = [] \<rparr>]"
proof -
  have t: "truthy (electron (no_options\<lparr>electron := Some ''/nonexistent''\<rparr>))"
    by (simp add: truthy_def)
  have m: "\<not> existsSync example_env
               (string_of (electron (no_options\<lparr>electron := Some ''/nonexistent''\<rparr>)))"
    by (simp add: example_env_def string_of_def)
  from missing_executable_raises_before_hard_watcher [OF t m, of "[''src'']"] t m
  show ?thesis
    by (simp add: assign_ignored_def no_options_def example_env_def)
qed

text \<open>
  C3. For every list of host process arguments and of application arguments, the
  hard-reset handler spawns the executable exactly once, detached and with inherited
  stdio, with the host arguments, then the application root path, then the application
  arguments; an argument list that is not given counts as empty. With \<open>--inspect\<close>, the root \<open>/app\<close> and \<open>--flag\<close> the spawned
  list is \<open>--inspect\<close>, \<open>/app\<close>, \<open>--flag\<close>.
\<close>

theorem hard_reset_spawn_arguments:
  "filter is_spawn (createHardresetHandler e x m (Some hostProcessArgs) (Some appArgs)) =
     [Spawn x (hostProcessArgs @ [appPath e] @ appArgs) True ''inherit'']
   \<and> spawned_args (createHardresetHandler e x m (Some hostProcessArgs) (Some appArgs)) =
       [hostProcessArgs @ [appPath e] @ appArgs]
   \<and> spawned_args (createHardresetHandler e x m ea aa) =
       [or_empty ea @ [appPath e] @ or_empty aa]
   \<and> spawned_args
         (createHardresetHandler example_env x m (Some [''--inspect'']) (Some [''--flag''])) =
       [[''--inspect'', ''/app'', ''--flag'']]"
  by (simp add: spawned_args_def createHardresetHandler_def or_empty_def map_filter_simps
      example_env_def split: option.splits)

text \<open>
  C4. The claim: for every configuration with \<open>forceHardReset\<close> and an executable set,
  the general watcher is closed and no soft reload ever occurs. The existence check
  stands before the forced branch: with \<open>forceHardReset\<close> and the executable
  \<open>/nonexistent\<close>, initialization raises at the check, the general watcher is never
  closed, and a later change reloads the open window.
\<close>

theorem forced_reset_missing_executable_reloads:
  "forceHardReset (no_options\<lparr>electron := Some ''/nonexistent'', forceHardReset := True\<rparr>)
   \<and> truthy (electron (no_options\<lparr>electron := Some ''/nonexistent'', forceHardReset := True\<rparr>))
   \<and> calls
        (snd (electronReload example_env [''src'']
                (no_options\<lparr>electron := Some ''/nonexistent'', forceHardReset := True\<rparr>))) =
       [Chokidar_watch [''src'']
          \<lparr> co_ignored = Array [ignoredPaths, PathString ''/app/main.js''],
            co_passthrough = [] \<rparr>,
        App_on_browser_window_created, Watcher_on 0 SoftReset, Fs_existsSync ''/nonexistent'']
   \<and> map closed
        (watchers
          (snd (electronReload example_env [''src'']
                  (no_options\<lparr>electron := Some ''/nonexistent'', forceHardReset := True\<rparr>)))) =
       [False]
   \<and> filter is_reload
        (calls
          (run example_env [Browser_window_created 1, Change 0 ''src/a.js'']
            (snd (electronReload example_env [''src'']
                    (no_options\<lparr>electron := Some ''/nonexistent'',
                                forceHardReset := True\<rparr>))))) =
       [ReloadIgnoringCache 1]"
  by (simp add: electronReload_missing no_options_def example_env_def truthy_def string_of_def
      emit_change_def update_watcher_def softResetHandler_def assign_ignored_def)

text \<open>
  C4, as the code has it. For every configuration with \<open>forceHardReset\<close> and an
  executable that is set and exists, initialization completes, and after the
  existence check its calls are, in this order: the hard watcher is opened on the entry file, the general glob is added to
  it, the general watcher is closed, and only then the hard-reset handler is armed. The
  hard watcher then tracks every path the general watcher tracked while it was open.
  Whatever events follow, no reload of a window is ever issued, and the first change the
  hard watcher delivers runs the hard-reset handler.
\<close>

theorem forced_reset_closes_soft_watcher_first:
  assumes "truthy (electron opts)" and "existsSync e (string_of (electron opts))"
    and "forceHardReset opts"
  shows "fst (electronReload e glob opts) = Inr ()
         \<and> calls (snd (electronReload e glob opts)) =
             [Chokidar_watch glob (assign_ignored [ignoredPaths, PathString (mainFile e)] opts),
              App_on_browser_window_created, Watcher_on 0 SoftReset,
              Fs_existsSync (string_of (electron opts)),
              Chokidar_watch [mainFile e] (assign_ignored [ignoredPaths] opts),
              Watcher_add 1 glob, Watcher_close 0,
              Watcher_once 1 (HardReset (electron opts) (hardResetMethod opts)
                                (electronArgv opts) (appArgv opts))]
         \<and> closed (watchers (snd (electronReload e glob opts)) ! 0)
         \<and> listeners (watchers (snd (electronReload e glob opts)) ! 0) = []
         \<and> paths (watchers (snd (electronReload e glob opts)) ! 1) = mainFile e # glob
         \<and> (\<forall>gm p. tracks gm ((watchers (snd (electronReload e glob opts)) ! 0)\<lparr>closed := False\<rparr>) p
                \<longrightarrow> tracks gm (watchers (snd (electronReload e glob opts)) ! 1) p)
         \<and> (\<forall>evs. filter is_reload (calls (run e evs (snd (electronReload e glob opts)))) = [])
         \<and> (\<forall>evs p. \<not> list_ex (is_change_of 1) evs \<longrightarrow>
                calls (step e (Change 1 p) (run e evs (snd (electronReload e glob opts)))) =
                  calls (run e evs (snd (electronReload e glob opts)))
                  @ createHardresetHandler e (electron opts) (hardResetMethod opts)
                      (electronArgv opts) (appArgv opts))"
proof -
  let ?s = "snd (electronReload e glob opts)"
  let ?h = "HardReset (electron opts) (hardResetMethod opts) (electronArgv opts) (appArgv opts)"
  note out = electronReload_forced [OF assms, of glob]
  have hs: "hard_session False [(?h, True)] ?s" using assms by (rule session_after_forced)
  have a: "fst (electronReload e glob opts) = Inr ()" by (simp add: out)
  have b: "calls ?s =
             [Chokidar_watch glob (assign_ignored [ignoredPaths, PathString (mainFile e)] opts),
              App_on_browser_window_created, Watcher_on 0 SoftReset,
              Fs_existsSync (string_of (electron opts)),
              Chokidar_watch [mainFile e] (assign_ignored [ignoredPaths] opts),
              Watcher_add 1 glob, Watcher_close 0, Watcher_once 1 ?h]"
    by (simp add: out)
  have c: "closed (watchers ?s ! 0)" by (simp add: out)
  have d: "listeners (watchers ?s ! 0) = []" by (simp add: out)
  have f: "paths (watchers ?s ! 1) = mainFile e # glob" by (simp add: out)
  have g: "tracks gm ((watchers ?s ! 0)\<lparr>closed := False\<rparr>) p \<longrightarrow> tracks gm (watchers ?s ! 1) p"
    for gm p
    using hard_ignored_subset [of opts p "mainFile e"] by (auto simp: out tracks_def)
  have r0: "filter is_reload (calls ?s) = []" by (simp add: out)
  have h: "filter is_reload (calls (run e evs ?s)) = []" for evs
    using run_forced_no_reload [OF hs, of "electron opts" "hardResetMethod opts"
        "electronArgv opts" "appArgv opts" e evs] r0 by simp
  have i: "\<not> list_ex (is_change_of 1) evs \<longrightarrow>
             calls (step e (Change 1 p) (run e evs ?s)) =
               calls (run e evs ?s)
               @ createHardresetHandler e (electron opts) (hardResetMethod opts)
                   (electronArgv opts) (appArgv opts)" for evs p
  proof
    assume n: "\<not> list_ex (is_change_of 1) evs"
    from run_hard_session_other [OF hs n, of e]
    have "hard_session False [(?h, True)] (run e evs ?s)" by simp
    from step_hard_session_fire [OF this, of e p] show "calls (step e (Change 1 p) (run e evs ?s)) =
               calls (run e evs ?s)
               @ createHardresetHandler e (electron opts) (hardResetMethod opts)
                   (electronArgv opts) (appArgv opts)" by simp
  qed
  from a b c d f g h i show ?thesis by blast
qed

theorem forced_reset_closes_soft_watcher_first_witness:
  "truthy (electron (no_options\<lparr>electron := Some ''/usr/bin/electron'', forceHardReset := True\<rparr>))
   \<and> existsSync example_env
        (string_of (electron (no_options\<lparr>electron := Some ''/usr/bin/electron'',
                                          forceHardReset := True\<rparr>)))
   \<and> forceHardReset (no_options\<lparr>electron := Some ''/usr/bin/electron'', forceHardReset := True\<rparr>)
   \<and> closed
        (watchers
          (snd (electronReload example_env [''src'']
                  (no_options\<lparr>electron := Some ''/usr/bin/electron'',
                              forceHardReset := True\<rparr>))) ! 0)
   \<and> filter is_reload
        (calls
          (run example_env [Browser_window_created 1, Change 0 ''src/a.js'', Change 1 ''src/a.js'']
            (snd (electronReload example_env [''src'']
                    (no_options\<lparr>electron := Some ''/usr/bin/electron'',
                                forceHardReset := True\<rparr>))))) = []"
proof -
  let ?o = "no_options\<lparr>electron := Some ''/usr/bin/electron'', forceHardReset := True\<rparr>"
  have t: "truthy (electron ?o)" by (simp add: truthy_def)
  have x: "existsSync example_env (string_of (electron ?o))"
    by (simp add: example_env_def string_of_def)
  have f: "forceHardReset ?o" by simp
  from forced_reset_closes_soft_watcher_first [OF t x f, of "[''src'']"] t x f
  show ?thesis by blast
qed

text \<open>
  C5. The claim: for every configuration with an executable set and without
  \<open>forceHardReset\<close>, a change to the entry file triggers exactly one respawn. The
  existence check stands before the hard watcher: with the executable \<open>/nonexistent\<close>
  initialization raises at the check, the general watcher is the only one, and changes
  of the entry file trigger no respawn at all.
\<close>

theorem entry_change_missing_executable_no_respawn:
  "truthy (electron (no_options\<lparr>electron := Some ''/nonexistent''\<rparr>))
   \<and> \<not> forceHardReset (no_options\<lparr>electron := Some ''/nonexistent''\<rparr>)
   \<and> length
        (watchers
          (snd (electronReload example_env [''src'']
                  (no_options\<lparr>electron := Some ''/nonexistent''\<rparr>)))) = 1
   \<and> filter is_spawn
        (calls
          (run example_env [Change 0 ''/app/main.js'', Change 1 ''/app/main.js'']
            (snd (electronReload example_env [''src'']
                    (no_options\<lparr>electron := Some ''/nonexistent''\<rparr>))))) = []"
  by (simp add: electronReload_missing no_options_def example_env_def truthy_def string_of_def
      emit_change_def update_watcher_def softResetHandler_def)

text \<open>
  C5, as the code has it. For every configuration without \<open>forceHardReset\<close> whose
  executable is set and exists, the hard watcher watches the entry file alone and its
  hard-reset handler is one-shot. Whatever events the session receives, the number of
  spawns is one if the hard watcher has delivered a change and zero otherwise; the
  first change it delivers runs the hard-reset handler, and every later change it
  delivers leaves the whole state as it is.
\<close>

theorem entry_change_respawns_once:
  assumes "truthy (electron opts)" and "existsSync e (string_of (electron opts))"
    and "\<not> forceHardReset opts"
  shows "fst (electronReload e glob opts) = Inr ()
         \<and> paths (watchers (snd (electronReload e glob opts)) ! 1) = [mainFile e]
         \<and> (\<forall>evs. length (filter is_spawn
                              (calls (run e evs (snd (electronReload e glob opts))))) =
                      (if list_ex (is_change_of 1) evs then 1 else 0))
         \<and> (\<forall>evs p. \<not> list_ex (is_change_of 1) evs \<longrightarrow>
                calls (step e (Change 1 p) (run e evs (snd (electronReload e glob opts)))) =
                  calls (run e evs (snd (electronReload e glob opts)))
                  @ createHardresetHandler e (electron opts) (hardResetMethod opts)
                      (electronArgv opts) (appArgv opts))
         \<and> (\<forall>evs p. list_ex (is_change_of 1) evs \<longrightarrow>
                step e (Change 1 p) (run e evs (snd (electronReload e glob opts))) =
                  run e evs (snd (electronReload e glob opts)))"
proof -
  let ?s = "snd (electronReload e glob opts)"
  let ?h = "HardReset (electron opts) (hardResetMethod opts) (electronArgv opts) (appArgv opts)"
  note out = electronReload_hard [OF assms, of glob]
  have hs: "hard_session True [(?h, True)] ?s" using assms by (rule session_after_hard)
  have a: "fst (electronReload e glob opts) = Inr ()" by (simp add: out)
  have b: "paths (watchers ?s ! 1) = [mainFile e]" by (simp add: out)
  have s0: "filter is_spawn (calls ?s) = []" by (simp add: out)
  have c: "length (filter is_spawn (calls (run e evs ?s))) =
             (if list_ex (is_change_of 1) evs then 1 else 0)" for evs
    using run_hard_session_spawns [OF hs, of e evs] s0 by simp
  have d: "\<not> list_ex (is_change_of 1) evs \<longrightarrow>
             calls (step e (Change 1 p) (run e evs ?s)) =
               calls (run e evs ?s)
               @ createHardresetHandler e (electron opts) (hardResetMethod opts)
                   (electronArgv opts) (appArgv opts)" for evs p
  proof
    assume n: "\<not> list_ex (is_change_of 1) evs"
    from run_hard_session_other [OF hs n, of e]
    have "hard_session True [(?h, True)] (run e evs ?s)" by simp
    from step_hard_session_fire [OF this, of e p]
    show "calls (step e (Change 1 p) (run e evs ?s)) =
               calls (run e evs ?s)
               @ createHardresetHandler e (electron opts) (hardResetMethod opts)
                   (electronArgv opts) (appArgv opts)" by simp
  qed
  have f: "list_ex (is_change_of 1) evs \<longrightarrow>
             step e (Change 1 p) (run e evs ?s) = run e evs ?s" for evs p
  proof
    assume y: "list_ex (is_change_of 1) evs"
    from run_hard_session_fired [OF hs y, of e]
    show "step e (Change 1 p) (run e evs ?s) = run e evs ?s"
      by (rule step_hard_session_inert)
  qed
  from a b c d f show ?thesis by blast
qed

theorem entry_change_respawns_once_witness:
  "truthy (electron (no_options\<lparr>electron := Some ''/usr/bin/electron''\<rparr>))
   \<and> existsSync example_env
        (string_of (electron (no_options\<lparr>electron := Some ''/usr/bin/electron''\<rparr>)))
   \<and> \<not> forceHardReset (no_options\<lparr>electron := Some ''/usr/bin/electron''\<rparr>)
   \<and> length
        (filter is_spawn
          (calls
            (run example_env
              [Change 1 ''/app/main.js'', Change 0 ''src/a.js'', Change 1 ''/app/main.js'']
              (snd (electronReload example_env [''src'']
                      (no_options\<lparr>electron := Some ''/usr/bin/electron''\<rparr>)))))) = 1"
proof -
  let ?o = "no_options\<lparr>electron := Some ''/usr/bin/electron''\<rparr>"
  have t: "truthy (electron ?o)" by (simp add: truthy_def)
  have x: "existsSync example_env (string_of (electron ?o))"
    by (simp add: example_env_def string_of_def)
  have f: "\<not> forceHardReset ?o" by (simp add: no_options_def)
  from entry_change_respawns_once [OF t x f, of "[''src'']"]
  have "length
          (filter is_spawn
            (calls
              (run example_env
                [Change 1 ''/app/main.js'', Change 0 ''src/a.js'', Change 1 ''/app/main.js'']
                (snd (electronReload example_env [''src''] ?o))))) =
        (if list_ex (is_change_of 1)
              [Change 1 ''/app/main.js'', Change 0 ''src/a.js'', Change 1 ''/app/main.js'']
         then 1 else 0)"
    by blast
  with t x f show ?thesis by simp
qed

text \<open>
  C6. Every run of the hard-reset handler ends the current process with exactly one call:
  the immediate \<^verbatim>\<open>app.exit()\<close> when the reset method is the string \<open>exit\<close>, and the
  graceful \<^verbatim>\<open>app.quit()\<close> for every other value, the missing one included. The call comes
  last, after the spawn.
\<close>

theorem hard_reset_termination:
  "terminations (createHardresetHandler e x m ea aa) =
     (if m = Some ''exit'' then [App_exit] else [App_quit])
   \<and> last (createHardresetHandler e x m ea aa) =
       (if m = Some ''exit'' then App_exit else App_quit)
   \<and> terminations (calls (call_listener e (HardReset x m ea aa) s)) =
       terminations (calls s) @ (if m = Some ''exit'' then [App_exit] else [App_quit])"
  by (simp add: terminations_def createHardresetHandler_def)

theorem hard_reset_termination_witness:
  "terminations
     (createHardresetHandler example_env (Some ''/usr/bin/electron'') (Some ''exit'') None None) =
     [App_exit]
   \<and> terminations
       (createHardresetHandler example_env (Some ''/usr/bin/electron'') None None None) =
       [App_quit]
   \<and> terminations
       (createHardresetHandler example_env (Some ''/usr/bin/electron'') (Some ''quit'') None None) =
       [App_quit]"
  using hard_reset_termination [of example_env "Some ''/usr/bin/electron''" "Some ''exit''" None None initial]
    hard_reset_termination [of example_env "Some ''/usr/bin/electron''" None None None initial]
    hard_reset_termination [of example_env "Some ''/usr/bin/electron''" "Some ''quit''" None None initial]
  by simp

text \<open>
  C7. The claim: the general watcher excludes every path that has a dot-prefixed
  segment or a segment named for the dependency directory, and the entry file. The
  pattern asks for a separator before the dot, so a relative path whose first segment
  is dot-prefixed, such as \<open>.env\<close>, is not excluded; and an \<^verbatim>\<open>ignored\<close> key in the
  options replaces the exclusions, so with \<^verbatim>\<open>ignored: []\<close> a path under
  \<open>node_modules\<close> is not excluded either.
\<close>

theorem leading_dot_segment_not_ignored:
  "list_ex dot_prefixed (segments ''.env'')
   \<and> \<not> is_ignored
         (woptions (watchers (snd (electronReload example_env [''.''] no_options)) ! 0))
         ''.env''
   \<and> ''node_modules'' \<in> set (segments ''/app/node_modules/x.js'')
   \<and> \<not> is_ignored
         (woptions
           (watchers
             (snd (electronReload example_env [''/app'']
                     (no_options\<lparr>ignored := Some (Array [])\<rparr>))) ! 0))
         ''/app/node_modules/x.js''"
  by (simp add: general_watcher_options assign_ignored_def no_options_def example_env_def
      is_ignored_def arrify_def ignoredPaths_def ignoredPaths_test_def dot_prefixed_def
      is_sep_def backslash_def)

text \<open>
  C7, as the code has it. When the options have no \<^verbatim>\<open>ignored\<close> key of their own, the
  general watcher excludes a path if one of its segments is named \<open>node_modules\<close>, if
  one of its segments after the first is dot-prefixed (a separator is followed by a
  dot), or if it is the entry file path; such a path is never tracked.
\<close>

theorem general_watcher_default_exclusions:
  assumes "ignored opts = None"
  shows "\<forall>p. (''node_modules'' \<in> set (segments p)
               \<or> list_ex dot_prefixed (tl (segments p))
               \<or> p = mainFile e)
           \<longrightarrow> is_ignored (woptions (watchers (snd (electronReload e glob opts)) ! 0)) p
               \<and> \<not> tracks gm (watchers (snd (electronReload e glob opts)) ! 0) p"
proof (intro allI impI)
  fix p
  assume h: "''node_modules'' \<in> set (segments p)
             \<or> list_ex dot_prefixed (tl (segments p)) \<or> p = mainFile e"
  have ig: "is_ignored (assign_ignored [ignoredPaths, PathString (mainFile e)] opts) p
              = (ignoredPaths_test p \<or> mainFile e = p)"
    using assms by (simp add: is_ignored_def assign_ignored_def arrify_def ignoredPaths_def)
  from h have "ignoredPaths_test p \<or> mainFile e = p"
  proof (elim disjE)
    assume "''node_modules'' \<in> set (segments p)"
    then have "str_includes p ''node_modules''" by (rule segment_included)
    then show ?thesis by (simp add: ignoredPaths_test_def)
  next
    assume "list_ex dot_prefixed (tl (segments p))"
    then have "str_includes p [CHR ''/'', CHR ''.''] \<or> str_includes p [backslash, CHR ''.'']"
      by (rule inner_dot_segment_included)
    then show ?thesis by (auto simp: ignoredPaths_test_def)
  next
    assume "p = mainFile e"
    then show ?thesis by simp
  qed
  with ig have "is_ignored (woptions (watchers (snd (electronReload e glob opts)) ! 0)) p"
    by (simp add: general_watcher_options)
  then show "is_ignored (woptions (watchers (snd (electronReload e glob opts)) ! 0)) p
             \<and> \<not> tracks gm (watchers (snd (electronReload e glob opts)) ! 0) p"
    by (simp add: tracks_def)
qed

theorem general_watcher_default_exclusions_witness:
  "ignored no_options = None
   \<and> ''node_modules'' \<in> set (segments ''/app/node_modules/x.js'')
   \<and> is_ignored
        (woptions (watchers (snd (electronReload example_env [''/app''] no_options)) ! 0))
        ''/app/node_modules/x.js''
   \<and> list_ex dot_prefixed (tl (segments ''/app/.git/config''))
   \<and> is_ignored
        (woptions (watchers (snd (electronReload example_env [''/app''] no_options)) ! 0))
        ''/app/.git/config''
   \<and> is_ignored
        (woptions (watchers (snd (electronReload example_env [''/app''] no_options)) ! 0))
        (mainFile example_env)"
proof -
  have n: "ignored no_options = None" by (simp add: no_options_def)
  have a: "''node_modules'' \<in> set (segments ''/app/node_modules/x.js'')"
    by (simp add: is_sep_def backslash_def)
  have b: "list_ex dot_prefixed (tl (segments ''/app/.git/config''))"
    by (simp add: is_sep_def backslash_def dot_prefixed_def)
  note w = general_watcher_default_exclusions [OF n, of example_env "[''/app'']" "\<lambda>pat p. True"]
  from w a have 1: "is_ignored
        (woptions (watchers (snd (electronReload example_env [''/app''] no_options)) ! 0))
        ''/app/node_modules/x.js''" by blast
  from w b have 2: "is_ignored
        (woptions (watchers (snd (electronReload example_env [''/app''] no_options)) ! 0))
        ''/app/.git/config''" by blast
  from w have 3: "is_ignored
        (woptions (watchers (snd (electronReload example_env [''/app''] no_options)) ! 0))
        (mainFile example_env)" by blast
  from n a b 1 2 3 show ?thesis by blast
qed

text \<open>
  C8. For every configuration without an executable, initialization completes with the
  general watcher as the only watcher. Whatever events came before, a change the general
  watcher delivers issues one cache-bypassing reload to each window in the live set, in
  the order of the set, and nothing else; and no event ever spawns a process.
\<close>

theorem soft_only_session_reloads_all:
  assumes "\<not> truthy (electron opts)"
  shows "fst (electronReload e glob opts) = Inr ()
         \<and> filter is_watch (calls (snd (electronReload e glob opts))) =
             [Chokidar_watch glob (assign_ignored [ignoredPaths, PathString (mainFile e)] opts)]
         \<and> length (watchers (snd (electronReload e glob opts))) = 1
         \<and> (\<forall>evs p.
               calls (step e (Change 0 p) (run e evs (snd (electronReload e glob opts)))) =
                 calls (run e evs (snd (electronReload e glob opts)))
                 @ map ReloadIgnoringCache
                     (browserWindows (run e evs (snd (electronReload e glob opts)))))
         \<and> (\<forall>evs. filter is_spawn (calls (run e evs (snd (electronReload e glob opts)))) = [])"
proof -
  let ?s = "snd (electronReload e glob opts)"
  note out = electronReload_soft_only [OF assms, of e glob]
  have ss: "soft_session ?s" using assms by (rule session_after_soft_only)
  have a: "fst (electronReload e glob opts) = Inr ()" by (simp add: out)
  have b: "filter is_watch (calls ?s) =
             [Chokidar_watch glob (assign_ignored [ignoredPaths, PathString (mainFile e)] opts)]"
    by (simp add: out)
  have c: "length (watchers ?s) = 1" by (simp add: out)
  have d: "calls (step e (Change 0 p) (run e evs ?s)) =
             calls (run e evs ?s) @ map ReloadIgnoringCache (browserWindows (run e evs ?s))"
    for evs p
  proof -
    from run_soft_session [OF ss, of e evs] have "soft_session (run e evs ?s)" by simp
    from step_soft_session_change [OF this, of e p] show ?thesis
      by (simp add: softResetHandler_def)
  qed
  have s0: "filter is_spawn (calls ?s) = []" by (simp add: out)
  have f: "filter is_spawn (calls (run e evs ?s)) = []" for evs
    using run_soft_session [OF ss, of e evs] s0 by simp
  from a b c d f show ?thesis by blast
qed

theorem soft_only_session_reloads_all_witness:
  "\<not> truthy (electron no_options)
   \<and> fst (electronReload example_env [''src''] no_options) = Inr ()
   \<and> calls
        (run example_env
          [Browser_window_created 1, Browser_window_created 2, Change 0 ''src/a.js'']
          (snd (electronReload example_env [''src''] no_options))) =
       calls (snd (electronReload example_env [''src''] no_options))
       @ [ReloadIgnoringCache 1, ReloadIgnoringCache 2]"
proof -
  have n: "\<not> truthy (electron no_options)" by (simp add: truthy_def no_options_def)
  note w = soft_only_session_reloads_all [OF n, of example_env "[''src'']"]
  from w have a: "fst (electronReload example_env [''src''] no_options) = Inr ()" by blast
  from w have "calls (step example_env (Change 0 ''src/a.js'')
                  (run example_env [Browser_window_created 1, Browser_window_created 2]
                    (snd (electronReload example_env [''src''] no_options)))) =
               calls (run example_env [Browser_window_created 1, Browser_window_created 2]
                       (snd (electronReload example_env [''src''] no_options)))
               @ map ReloadIgnoringCache
                   (browserWindows
                     (run example_env [Browser_window_created 1, Browser_window_created 2]
                       (snd (electronReload example_env [''src''] no_options))))"
    by blast
  then have "calls
        (run example_env
          [Browser_window_created 1, Browser_window_created 2, Change 0 ''src/a.js'']
          (snd (electronReload example_env [''src''] no_options))) =
       calls (snd (electronReload example_env [''src''] no_options))
       @ [ReloadIgnoringCache 1, ReloadIgnoringCache 2]"
    by (simp add: electronReload_soft_only [OF n])
  with n a show ?thesis by blast
qed

text \<open>
  C9. For every configuration with \<open>forceHardReset\<close> and no executable set,
  initialization completes exactly as it does for the same configuration without
  \<open>forceHardReset\<close>: the result and the whole state are equal, so every run of events
  is too. The general watcher is the only watcher, it is open with the soft-reset
  handler, and initialization never closed a watcher.
\<close>

theorem forced_reset_without_executable_is_inert:
  assumes "\<not> truthy (electron opts)"
  shows "electronReload e glob (opts\<lparr>forceHardReset := True\<rparr>) =
           electronReload e glob (opts\<lparr>forceHardReset := False\<rparr>)
         \<and> fst (electronReload e glob (opts\<lparr>forceHardReset := True\<rparr>)) = Inr ()
         \<and> length (watchers (snd (electronReload e glob (opts\<lparr>forceHardReset := True\<rparr>)))) = 1
         \<and> \<not> closed (watchers (snd (electronReload e glob (opts\<lparr>forceHardReset := True\<rparr>))) ! 0)
         \<and> listeners (watchers (snd (electronReload e glob (opts\<lparr>forceHardReset := True\<rparr>))) ! 0) =
             [(SoftReset, False)]
         \<and> Watcher_close 0 \<notin> set (calls (snd (electronReload e glob (opts\<lparr>forceHardReset := True\<rparr>))))
         \<and> (\<forall>evs. run e evs (snd (electronReload e glob (opts\<lparr>forceHardReset := True\<rparr>))) =
                    run e evs (snd (electronReload e glob (opts\<lparr>forceHardReset := False\<rparr>))))"
proof -
  have t: "\<not> truthy (electron (opts\<lparr>forceHardReset := True\<rparr>))" using assms by simp
  have f: "\<not> truthy (electron (opts\<lparr>forceHardReset := False\<rparr>))" using assms by simp
  have eq: "electronReload e glob (opts\<lparr>forceHardReset := True\<rparr>) =
              electronReload e glob (opts\<lparr>forceHardReset := False\<rparr>)"
    by (simp add: electronReload_soft_only [OF t] electronReload_soft_only [OF f]
        assign_ignored_def)
  have rest: "fst (electronReload e glob (opts\<lparr>forceHardReset := True\<rparr>)) = Inr ()
         \<and> length (watchers (snd (electronReload e glob (opts\<lparr>forceHardReset := True\<rparr>)))) = 1
         \<and> \<not> closed (watchers (snd (electronReload e glob (opts\<lparr>forceHardReset := True\<rparr>))) ! 0)
         \<and> listeners (watchers (snd (electronReload e glob (opts\<lparr>forceHardReset := True\<rparr>))) ! 0) =
             [(SoftReset, False)]
         \<and> Watcher_close 0 \<notin> set (calls (snd (electronReload e glob (opts\<lparr>forceHardReset := True\<rparr>))))"
    by (simp add: electronReload_soft_only [OF t])
  from eq rest show ?thesis by simp
qed

theorem forced_reset_without_executable_is_inert_witness:
  "\<not> truthy (electron no_options)
   \<and> electronReload example_env [''src''] (no_options\<lparr>forceHardReset := True\<rparr>) =
       electronReload example_env [''src''] (no_options\<lparr>forceHardReset := False\<rparr>)
   \<and> fst (electronReload example_env [''src''] (no_options\<lparr>forceHardReset := True\<rparr>)) = Inr ()
   \<and> length
        (watchers (snd (electronReload example_env [''src'']
                          (no_options\<lparr>forceHardReset := True\<rparr>)))) = 1"
proof -
  have n: "\<not> truthy (electron no_options)" by (simp add: truthy_def no_options_def)
  from forced_reset_without_executable_is_inert [OF n, of example_env "[''src'']"] n
  show ?thesis by blast
qed

text \<open>
  C10. For every options object with an \<^verbatim>\<open>ignored\<close> key of its own, the value of that
  key is the whole \<^verbatim>\<open>ignored\<close> option of every watcher the call creates, the general
  watcher and, when there is one, the hard watcher: a path is ignored exactly when the
  user's value matches it, whatever the default patterns and the entry file path are.
\<close>

theorem user_ignored_replaces_defaults:
  assumes "ignored opts = Some v"
  shows "watchers (snd (electronReload e glob opts)) \<noteq> []
         \<and> (\<forall>w \<in> set (watchers (snd (electronReload e glob opts))).
               co_ignored (woptions w) = v
               \<and> (\<forall>p. is_ignored (woptions w) p = list_ex (\<lambda>m. matches m p) (arrify v)))"
proof (cases "truthy (electron opts)")
  case False
  with assms show ?thesis
    by (simp add: electronReload_soft_only assign_ignored_def is_ignored_def)
next
  case True
  show ?thesis
  proof (cases "existsSync e (string_of (electron opts))")
    case False
    with True assms show ?thesis
      by (simp add: electronReload_missing assign_ignored_def is_ignored_def)
  next
    case ex: True
    show ?thesis
    proof (cases "forceHardReset opts")
      case True
      with \<open>truthy (electron opts)\<close> ex assms show ?thesis
        by (simp add: electronReload_forced assign_ignored_def is_ignored_def)
    next
      case False
      with \<open>truthy (electron opts)\<close> ex assms show ?thesis
        by (simp add: electronReload_hard assign_ignored_def is_ignored_def)
    qed
  qed
qed

theorem user_ignored_replaces_defaults_witness:
  "ignored (no_options\<lparr>electron := Some ''/usr/bin/electron'', ignored := Some (Array [])\<rparr>) =
     Some (Array [])
   \<and> length
        (watchers
          (snd (electronReload example_env [''/app'']
                  (no_options\<lparr>electron := Some ''/usr/bin/electron'',
                              ignored := Some (Array [])\<rparr>)))) = 2
   \<and> \<not> is_ignored
         (woptions
           (watchers
             (snd (electronReload example_env [''/app'']
                     (no_options\<lparr>electron := Some ''/usr/bin/electron'',
                                 ignored := Some (Array [])\<rparr>))) ! 0))
         ''/app/node_modules/x.js''
   \<and> \<not> is_ignored
         (woptions
           (watchers
             (snd (electronReload example_env [''/app'']
                     (no_options\<lparr>electron := Some ''/usr/bin/electron'',
                                 ignored := Some (Array [])\<rparr>))) ! 0))
         ''/app/main.js''
   \<and> \<not> is_ignored
         (woptions
           (watchers
             (snd (electronReload example_env [''/app'']
                     (no_options\<lparr>electron := Some ''/usr/bin/electron'',
                                 ignored := Some (Array [])\<rparr>))) ! 1))
         ''/app/.git/config''"
proof -
  let ?o = "no_options\<lparr>electron := Some ''/usr/bin/electron'', ignored := Some (Array [])\<rparr>"
  let ?ws = "watchers (snd (electronReload example_env [''/app''] ?o))"
  have i: "ignored ?o = Some (Array [])" by simp
  have t: "truthy (electron ?o)" by (simp add: truthy_def)
  have x: "existsSync example_env (string_of (electron ?o))"
    by (simp add: example_env_def string_of_def)
  have f: "\<not> forceHardReset ?o" by (simp add: no_options_def)
  have l: "length ?ws = 2" by (simp add: electronReload_hard [OF t x f])
  then have m: "?ws ! 0 \<in> set ?ws" "?ws ! 1 \<in> set ?ws" by simp_all
  note w = user_ignored_replaces_defaults [OF i, of example_env "[''/app'']"]
  from w m have "\<And>p. is_ignored (woptions (?ws ! 0)) p = list_ex (\<lambda>m. matches m p) (arrify (Array []))"
    and "\<And>p. is_ignored (woptions (?ws ! 1)) p = list_ex (\<lambda>m. matches m p) (arrify (Array []))"
    by blast+
  then have "\<And>p. \<not> is_ignored (woptions (?ws ! 0)) p" and "\<And>p. \<not> is_ignored (woptions (?ws ! 1)) p"
    by (simp_all add: arrify_def)
  with i l show ?thesis by blast
qed

end
